theory Spec2Isabelle
  imports Main "HOL-Library.Word"
begin

unbundle bit_operations_syntax

section \<open>SAUCE records: the parser of sauce.go\<close>

text \<open>
  The development follows \<^verbatim>\<open>sauce.go\<close>: the constants and lookup tables, the
  \<^verbatim>\<open>SAUCE\<close> struct, \<^verbatim>\<open>New\<close>, \<^verbatim>\<open>Parse\<close>, \<^verbatim>\<open>parseDate\<close>, \<^verbatim>\<open>Dump\<close>,
  \<^verbatim>\<open>DataTypeString\<close> and \<^verbatim>\<open>FileTypeString\<close>.

  Go's \<^verbatim>\<open>byte\<close>, \<^verbatim>\<open>uint8\<close>, \<^verbatim>\<open>uint16\<close> and \<^verbatim>\<open>uint32\<close> are words of that width. A Go
  \<^verbatim>\<open>string\<close> is a sequence of bytes, here a \<^typ>\<open>string\<close> (one \<^typ>\<open>char\<close> per byte). A
  fixed-size array is a list of that length.
\<close>

type_synonym byte = "8 word"
type_synonym uint8 = "8 word"
type_synonym uint16 = "16 word"
type_synonym uint32 = "32 word"

subsection \<open>Slices and conversions\<close>

text \<open>
  \<^verbatim>\<open>b[i:j]\<close>. Go panics when the bounds are out of range; every slice expression of
  \<^verbatim>\<open>sauce.go\<close> has constant bounds inside a buffer of known length (128 bytes, or the 8
  characters of the date), so no panic is reachable there.
\<close>

definition slice :: "'a list \<Rightarrow> nat \<Rightarrow> nat \<Rightarrow> 'a list" where
  "slice b i j = take (j - i) (drop i b)"

text \<open>\<^verbatim>\<open>string(b)\<close> of a byte slice: the same bytes.\<close>

definition string_of_bytes :: "byte list \<Rightarrow> string" where
  "string_of_bytes b = map (\<lambda>w. char_of (unat w)) b"

text \<open>
  \<^verbatim>\<open>binary.LittleEndian.Uint16\<close> and \<^verbatim>\<open>Uint32\<close> of package \<^verbatim>\<open>encoding/binary\<close>:
  \<^verbatim>\<open>uint32(b[0]) | uint32(b[1])<<8 | uint32(b[2])<<16 | uint32(b[3])<<24\<close>.
\<close>

definition Uint16 :: "byte list \<Rightarrow> uint16" where
  "Uint16 b = ucast (b ! 0) OR push_bit 8 (ucast (b ! 1))"

definition Uint32 :: "byte list \<Rightarrow> uint32" where
  "Uint32 b = ucast (b ! 0) OR push_bit 8 (ucast (b ! 1))
     OR push_bit 16 (ucast (b ! 2)) OR push_bit 24 (ucast (b ! 3))"

subsection \<open>Constants and lookup tables\<close>

definition DATA_TYPE_NONE :: uint8 where "DATA_TYPE_NONE = 0"
definition DATA_TYPE_CHARACTER :: uint8 where "DATA_TYPE_CHARACTER = 1"
definition DATA_TYPE_BITMAP :: uint8 where "DATA_TYPE_BITMAP = 2"
definition DATA_TYPE_VECTOR :: uint8 where "DATA_TYPE_VECTOR = 3"
definition DATA_TYPE_AUDIO :: uint8 where "DATA_TYPE_AUDIO = 4"
definition DATA_TYPE_BINARYTEXT :: uint8 where "DATA_TYPE_BINARYTEXT = 5"
definition DATA_TYPE_XBIN :: uint8 where "DATA_TYPE_XBIN = 6"
definition DATA_TYPE_ARCHIVE :: uint8 where "DATA_TYPE_ARCHIVE = 7"
definition DATA_TYPE_EXECUTABLE :: uint8 where "DATA_TYPE_EXECUTABLE = 8"

text \<open>\<^verbatim>\<open>SAUCEID = [5]byte{'S', 'A', 'U', 'C', 'E'}\<close> and \<^verbatim>\<open>SAUCEVersion = [2]byte{0, 0}\<close>.\<close>

definition SAUCEID :: "byte list" where
  "SAUCEID = [0x53, 0x41, 0x55, 0x43, 0x45]"

definition SAUCEVersion :: "byte list" where
  "SAUCEVersion = [0, 0]"

definition SAUCEDataType :: "uint8 \<rightharpoonup> string" where
  "SAUCEDataType = map_of
     [(DATA_TYPE_NONE, ''None''),
      (DATA_TYPE_CHARACTER, ''Character''),
      (DATA_TYPE_BITMAP, ''Bitmap''),
      (DATA_TYPE_VECTOR, ''Vector''),
      (DATA_TYPE_AUDIO, ''Audio''),
      (DATA_TYPE_BINARYTEXT, ''BinaryText''),
      (DATA_TYPE_XBIN, ''XBin''),
      (DATA_TYPE_ARCHIVE, ''Archive''),
      (DATA_TYPE_EXECUTABLE, ''Executable'')]"

definition SAUCEFileType :: "uint8 \<rightharpoonup> (uint8 \<rightharpoonup> string)" where
  "SAUCEFileType = map_of
     [(DATA_TYPE_CHARACTER, map_of
        [(0, ''ASCII''), (1, ''ANSi''), (2, ''ANSiMation''), (3, ''RIP script''),
         (4, ''PCBoard''), (5, ''Avatar''), (6, ''HTML''), (7, ''Source''),
         (8, ''Tundradraw'')]),
      (DATA_TYPE_BITMAP, map_of
        [(0, ''GIF''), (1, ''PCX''), (2, ''LBM/FF''), (3, ''TGA''), (4, ''FLI''),
         (5, ''FLC''), (6, ''BMP''), (7, ''GL''), (8, ''DL''), (9, ''WPG''),
         (10, ''PNG''), (11, ''JPG''), (12, ''MPG''), (13, ''AVI'')]),
      (DATA_TYPE_VECTOR, map_of
        [(0, ''DXF''), (1, ''DWG''), (2, ''WPG''), (3, ''3DS'')]),
      (DATA_TYPE_AUDIO, map_of
        [(0, ''MOD''), (1, ''669''), (2, ''STM''), (3, ''S3M''), (4, ''MTM''),
         (5, ''FAR''), (6, ''ULT''), (7, ''AMF''), (8, ''DMF''), (9, ''OKT''),
         (10, ''ROL''), (11, ''CMF''), (12, ''MID''), (13, ''SADT''), (14, ''VOC''),
         (15, ''WAV''), (16, ''SMP8''), (17, ''SMP8S''), (18, ''SMP16''),
         (19, ''SMP16S''), (20, ''PATCH8''), (21, ''PATCH16''), (22, ''XM''),
         (23, ''HSC''), (24, ''IT'')]),
      (DATA_TYPE_ARCHIVE, map_of
        [(0, ''ZIP''), (1, ''ARJ''), (2, ''LZH''), (3, ''ARC''), (4, ''TAR''),
         (5, ''ZOO''), (6, ''RAR''), (7, ''UC2''), (8, ''PAK''), (9, ''SQZ'')])]"

subsection \<open>Errors and the record\<close>

text \<open>
  An \<^verbatim>\<open>error\<close> value that \<^verbatim>\<open>Parse\<close> returns is either one made by \<^verbatim>\<open>errors.New\<close>
  with its message, or one returned by package \<^verbatim>\<open>os\<close> (open, stat, seek or read
  failed) with its message.
\<close>

datatype error =
    errors_New string
  | OSError string

text \<open>
  Package \<^verbatim>\<open>time\<close> is not part of the repository. The parser only builds a
  \<^verbatim>\<open>time.Time\<close> with \<^verbatim>\<open>time.Date\<close> and the renderer only prints it, so the type
  of times and the three operations used are parameters: the zero value \<^verbatim>\<open>time.Time{}\<close>,
  \<^verbatim>\<open>time.Date(y, time.Month(m), d, 0, 0, 0, 0, time.UTC)\<close> and the \<^verbatim>\<open>String\<close> method.
\<close>

record 't time_pkg =
  time_zero :: 't
  time_Date :: "int \<Rightarrow> int \<Rightarrow> int \<Rightarrow> 't"
  time_String :: "'t \<Rightarrow> string"

record 't SAUCE =
  ID :: "byte list"
  Version :: "byte list"
  Title :: string
  Author :: string
  Group :: string
  Date :: 't
  FileSize :: uint32
  DataType :: uint8
  FileType :: uint8
  TInfo :: "uint16 list"
  Comments :: uint8
  TFlags :: uint8
  TInfos :: "byte list"

text \<open>
  \<^verbatim>\<open>New\<close>: \<^verbatim>\<open>&SAUCE{ID: SAUCEID, Version: SAUCEVersion}\<close>; every other field has Go's
  zero value.
\<close>

definition New :: "'t time_pkg \<Rightarrow> 't SAUCE" where
  "New T = \<lparr>ID = SAUCEID, Version = SAUCEVersion, Title = [], Author = [], Group = [],
     Date = time_zero T, FileSize = 0, DataType = 0, FileType = 0,
     TInfo = replicate 4 0, Comments = 0, TFlags = 0, TInfos = replicate 22 0\<rparr>"

subsection \<open>Library functions used by the parser and the renderer\<close>

text \<open>
  \<^verbatim>\<open>strings.TrimSpace\<close> removes leading and trailing white space as Unicode defines it,
  reading the string as UTF-8: \<^verbatim>\<open>unicode.IsSpace\<close> holds of the six ASCII characters
  tab, line feed, vertical tab, form feed, carriage return and space, and of U+0085,
  U+00A0, U+1680, U+2000 to U+200A, U+2028, U+2029, U+202F, U+205F and U+3000. A byte
  that does not start a well-formed encoding decodes to \<^verbatim>\<open>utf8.RuneError\<close>, which is
  not white space, so trimming stops there. No other control character (NUL, SUB, DEL)
  is white space.
\<close>

definition asciiSpace :: "char \<Rightarrow> bool" where
  "asciiSpace c \<longleftrightarrow> c = CHR 0x09 \<or> c = CHR 0x0A \<or> c = CHR 0x0B \<or> c = CHR 0x0C
     \<or> c = CHR 0x0D \<or> c = CHR 0x20"

text \<open>The two-byte encodings of U+0085 and U+00A0.\<close>

definition space2 :: "char \<Rightarrow> char \<Rightarrow> bool" where
  "space2 c d \<longleftrightarrow> c = CHR 0xC2 \<and> (d = CHR 0x85 \<or> d = CHR 0xA0)"

text \<open>The three-byte encodings of the white space beyond Latin-1.\<close>

definition space3 :: "char \<Rightarrow> char \<Rightarrow> char \<Rightarrow> bool" where
  "space3 c d e \<longleftrightarrow>
     (c = CHR 0xE1 \<and> d = CHR 0x9A \<and> e = CHR 0x80)
   \<or> (c = CHR 0xE2 \<and> d = CHR 0x80 \<and>
        (((128::nat) \<le> of_char e \<and> of_char e \<le> (138::nat))
         \<or> e = CHR 0xA8 \<or> e = CHR 0xA9 \<or> e = CHR 0xAF))
   \<or> (c = CHR 0xE2 \<and> d = CHR 0x81 \<and> e = CHR 0x9F)
   \<or> (c = CHR 0xE3 \<and> d = CHR 0x80 \<and> e = CHR 0x80)"

text \<open>
  Dropping white-space runes from the front, one rune at a time. The predicates for
  the multi-byte runes are arguments, so that the same loop runs from the back on the
  reversed string.
\<close>

fun trimRunes ::
  "(char \<Rightarrow> char \<Rightarrow> bool) \<Rightarrow> (char \<Rightarrow> char \<Rightarrow> char \<Rightarrow> bool) \<Rightarrow> string \<Rightarrow> string" where
  "trimRunes p2 p3 (c # d # e # s) =
     (if asciiSpace c then trimRunes p2 p3 (d # e # s)
      else if p2 c d then trimRunes p2 p3 (e # s)
      else if p3 c d e then trimRunes p2 p3 s
      else c # d # e # s)"
| "trimRunes p2 p3 [c, d] =
     (if asciiSpace c then trimRunes p2 p3 [d]
      else if p2 c d then []
      else [c, d])"
| "trimRunes p2 p3 [c] = (if asciiSpace c then [] else [c])"
| "trimRunes p2 p3 [] = []"

definition TrimLeftSpace :: "string \<Rightarrow> string" where
  "TrimLeftSpace s = trimRunes space2 space3 s"

definition TrimRightSpace :: "string \<Rightarrow> string" where
  "TrimRightSpace s = rev (trimRunes (\<lambda>c d. space2 d c) (\<lambda>c d e. space3 e d c) (rev s))"

definition TrimSpace :: "string \<Rightarrow> string" where
  "TrimSpace s = TrimRightSpace (TrimLeftSpace s)"

text \<open>
  \<^verbatim>\<open>strconv.Atoi\<close> with a 64-bit \<^verbatim>\<open>int\<close>: an optional sign, then one or more decimal
  digits. It returns the value and an error: a syntax error comes with the value 0, a
  value out of range with the nearest 64-bit value. The error is a
  \<^verbatim>\<open>*strconv.NumError\<close>; of its fields the model keeps the cause, \<^verbatim>\<open>strconv.ErrSyntax\<close>
  or \<^verbatim>\<open>strconv.ErrRange\<close>.
\<close>

datatype NumError = ErrSyntax | ErrRange

definition isDigit :: "char \<Rightarrow> bool" where
  "isDigit c \<longleftrightarrow> (48::nat) \<le> of_char c \<and> of_char c \<le> (57::nat)"

definition decimal :: "string \<Rightarrow> int" where
  "decimal ds = foldl (\<lambda>n c. n * 10 + (of_char c - 48)) 0 ds"

definition Atoi :: "string \<Rightarrow> int \<times> NumError option" where
  "Atoi s =
     (let neg = (s \<noteq> [] \<and> hd s = CHR ''-'');
          ds = (if s \<noteq> [] \<and> (hd s = CHR ''+'' \<or> hd s = CHR ''-'') then tl s else s)
      in if ds = [] \<or> \<not> list_all isDigit ds then (0, Some ErrSyntax)
         else if \<not> neg \<and> 2 ^ 63 \<le> decimal ds then (2 ^ 63 - 1, Some ErrRange)
         else if neg \<and> 2 ^ 63 < decimal ds then (- (2 ^ 63), Some ErrRange)
         else (if neg then - decimal ds else decimal ds, None))"

text \<open>The verb \<^verbatim>\<open>%d\<close> of \<^verbatim>\<open>fmt.Printf\<close> on an unsigned integer: its decimal digits.\<close>

fun itoa :: "nat \<Rightarrow> string" where
  "itoa n = (if n < 10 then [char_of (48 + n)] else itoa (n div 10) @ [char_of (48 + n mod 10)])"

declare itoa.simps [simp del]

text \<open>The verb \<^verbatim>\<open>%v\<close> on an error: its \<^verbatim>\<open>Error()\<close> string.\<close>

fun Error :: "error \<Rightarrow> string" where
  "Error (errors_New m) = m"
| "Error (OSError m) = m"

subsection \<open>The file behind a file name\<close>

text \<open>
  \<^verbatim>\<open>Parse\<close> reaches the file through four calls: \<^verbatim>\<open>os.Open\<close>, \<^verbatim>\<open>f.Stat\<close>,
  \<^verbatim>\<open>f.Seek(-128, 2)\<close> and \<^verbatim>\<open>f.Read(b)\<close> with a buffer of 128 bytes. A \<open>source\<close> gives
  the outcome of each: the error of \<^verbatim>\<open>Open\<close> if any, the size that \<^verbatim>\<open>Stat\<close> reports or
  its error, the error of \<^verbatim>\<open>Seek\<close> if any, and the bytes that \<^verbatim>\<open>Read\<close> stores in the
  buffer (their number is the \<^verbatim>\<open>n\<close> it returns) with its error if any. An error of the
  operating system is given by its message.
\<close>

record source =
  os_Open :: "string option"
  f_Stat :: "string + int"
  f_Seek :: "string option"
  f_Read :: "byte list \<times> string option"

text \<open>
  A regular, readable file with the content \<open>bs\<close>: it opens, reports its length, and
  after a seek to 128 bytes before its end a read returns its last 128 bytes. (A seek
  before the start of the file fails and leaves the position at the start; a read at
  the end of the file returns \<^verbatim>\<open>io.EOF\<close>.)
\<close>

definition regular_file :: "byte list \<Rightarrow> source" where
  "regular_file bs = \<lparr>os_Open = None,
     f_Stat = Inr (int (length bs)),
     f_Seek = (if length bs < 128 then Some ''invalid argument'' else None),
     f_Read = (drop (length bs - 128) bs, if bs = [] then Some ''EOF'' else None)\<rparr>"

subsection \<open>Parse\<close>

text \<open>
  \<^verbatim>\<open>parseDate\<close>: the three \<^verbatim>\<open>strconv.Atoi\<close> calls drop their error (\<^verbatim>\<open>y, _ := ...\<close>)
  and keep the value.
\<close>

definition parseDate :: "'t time_pkg \<Rightarrow> string \<Rightarrow> 't" where
  "parseDate T s =
     (let y = fst (Atoi (slice s 0 4));
          m = fst (Atoi (slice s 4 6));
          d = fst (Atoi (slice s 6 8))
      in time_Date T y m d)"

text \<open>
  \<^verbatim>\<open>Parse\<close> returns the pair \<^verbatim>\<open>(r *SAUCE, err error)\<close>; \<^verbatim>\<open>nil\<close> is \<open>None\<close>. The
  \<^verbatim>\<open>log.Printf\<close> of the date field writes to the standard logger and the deferred
  \<^verbatim>\<open>f.Close()\<close> releases the handle; neither changes the result, and both are left out.
\<close>

definition Parse :: "'t time_pkg \<Rightarrow> source \<Rightarrow> 't SAUCE option \<times> error option" where
  "Parse T src =
     (case os_Open src of
        Some err \<Rightarrow> (None, Some (OSError err))
      | None \<Rightarrow>
     (case f_Stat src of
        Inl err \<Rightarrow> (None, Some (OSError err))
      | Inr sz \<Rightarrow>
     if sz < 129 then (None, Some (errors_New ''File too short''))
     else
     (case f_Seek src of
        Some err \<Rightarrow> (None, Some (OSError err))
      | None \<Rightarrow>
     (case f_Read src of
        (b, Some err) \<Rightarrow> (None, Some (OSError err))
      | (b, None) \<Rightarrow>
     if length b \<noteq> 128 then (None, Some (errors_New ''Short read''))
     else if slice b 0 5 \<noteq> SAUCEID then (None, Some (errors_New ''No SAUCE record''))
     else
       (let r = New T;
            r = r\<lparr>Title := TrimSpace (string_of_bytes (slice b 7 41))\<rparr>;
            r = r\<lparr>Author := TrimSpace (string_of_bytes (slice b 41 61))\<rparr>;
            r = r\<lparr>Group := TrimSpace (string_of_bytes (slice b 61 81))\<rparr>;
            r = r\<lparr>Date := parseDate T (string_of_bytes (slice b 82 90))\<rparr>;
            r = r\<lparr>FileSize := Uint32 (slice b 91 95)\<rparr>;
            r = r\<lparr>DataType := b ! 94\<rparr>;
            r = r\<lparr>FileType := b ! 95\<rparr>;
            r = r\<lparr>TInfo := (TInfo r)[0 := Uint16 (slice b 96 98)]\<rparr>;
            r = r\<lparr>TInfo := (TInfo r)[1 := Uint16 (slice b 98 100)]\<rparr>;
            r = r\<lparr>TInfo := (TInfo r)[2 := Uint16 (slice b 100 102)]\<rparr>;
            r = r\<lparr>TInfo := (TInfo r)[3 := Uint16 (slice b 102 104)]\<rparr>
        in (Some r, None))))))"

subsection \<open>Dump\<close>

text \<open>A lookup in a Go map gives the zero value for a missing key: the empty string.\<close>

definition DataTypeString :: "'t SAUCE \<Rightarrow> string" where
  "DataTypeString r = (case SAUCEDataType (DataType r) of None \<Rightarrow> [] | Some s \<Rightarrow> s)"

definition FileTypeString :: "'t SAUCE \<Rightarrow> string" where
  "FileTypeString r =
     (case SAUCEFileType (DataType r) of
        None \<Rightarrow> []
      | Some m \<Rightarrow> (case m (FileType r) of None \<Rightarrow> [] | Some s \<Rightarrow> s))"

text \<open>
  \<^verbatim>\<open>Dump\<close> writes to standard output with \<^verbatim>\<open>fmt.Printf\<close>; the model returns what each
  call writes, in order, each with its final line feed.
\<close>

definition Dump :: "'t time_pkg \<Rightarrow> 't SAUCE \<Rightarrow> string list" where
  "Dump T r =
     [''id......: '' @ string_of_bytes (ID r) @ ''\<newline>'',
      ''version.: '' @ itoa (unat (Version r ! 0)) @ itoa (unat (Version r ! 1)) @ ''\<newline>'',
      ''title...: '' @ Title r @ ''\<newline>'',
      ''author..: '' @ Author r @ ''\<newline>'',
      ''group...: '' @ Group r @ ''\<newline>'',
      ''date....: '' @ time_String T (Date r) @ ''\<newline>'',
      ''filesize: '' @ itoa (unat (FileSize r)) @ ''\<newline>'',
      ''datatype: '' @ itoa (unat (DataType r)) @ '' ('' @ DataTypeString r @ '')\<newline>'',
      (if SAUCEFileType (DataType r) \<noteq> None
       then ''filetype: '' @ itoa (unat (FileType r)) @ '' ('' @ FileTypeString r @ '')\<newline>''
       else ''filetype: '' @ itoa (unat (FileType r)) @ ''\<newline>''),
      ''tinfo...: '' @ itoa (unat (TInfo r ! 0)) @ '', '' @ itoa (unat (TInfo r ! 1)) @ '', ''
         @ itoa (unat (TInfo r ! 2)) @ '', '' @ itoa (unat (TInfo r ! 3)) @ ''\<newline>'']
     @ (if DataType r = 1 then
          (if FileType r \<in> {0, 1, 2, 4, 5, 8} then
             (let w = TInfo r ! 0;
                  h = TInfo r ! 1;
                  w = (if w = 0 then 80 else w)
              in [''size....: '' @ itoa (unat w) @ '' x '' @ itoa (unat h) @ '' characters\<newline>''])
           else if FileType r = 3 then
             [''size....: '' @ itoa (unat (TInfo r ! 0)) @ '' x '' @ itoa (unat (TInfo r ! 1))
                @ '' pixels\<newline>'']
           else [])
        else if DataType r = 2 then
          [''size....: '' @ itoa (unat (TInfo r ! 0)) @ '' x '' @ itoa (unat (TInfo r ! 1))
             @ '' pixels\<newline>'']
        else [])"

subsection \<open>The command sauce-dump\<close>

text \<open>
  \<^verbatim>\<open>main\<close> of \<^verbatim>\<open>sauce-dump/main.go\<close> calls \<^verbatim>\<open>Parse\<close> on each argument and writes one of
  three things: the error, when \<^verbatim>\<open>err != nil\<close>; the line \<^verbatim>\<open>no SAUCE record\<close>, when
  there is no error and \<^verbatim>\<open>r == nil\<close>; and otherwise the file name followed by the
  \<^verbatim>\<open>Dump\<close> of the record. The file system \<open>fs\<close> gives the source behind each name.
  (The file calls the package \<^verbatim>\<open>suace\<close> and does not import it; the model takes the
  call to be \<^verbatim>\<open>sauce.Parse\<close>.)
\<close>

definition sauce_dump :: "'t time_pkg \<Rightarrow> (string \<Rightarrow> source) \<Rightarrow> string list \<Rightarrow> string list" where
  "sauce_dump T fs args = concat (map (\<lambda>filename.
     case Parse T (fs filename) of
       (r, Some err) \<Rightarrow> [filename @ '': error '' @ Error err @ ''\<newline>'']
     | (None, None) \<Rightarrow> [filename @ '': no SAUCE record\<newline>'']
     | (Some r, None) \<Rightarrow> (filename @ ''\<newline>'') # Dump T r) args)"

subsection \<open>The trailer, and concrete files\<close>

text \<open>The 128 bytes that \<^verbatim>\<open>Parse\<close> reads from the end of the file: its buffer \<^verbatim>\<open>b\<close>.\<close>

definition trailer :: "source \<Rightarrow> byte list" where
  "trailer src = fst (f_Read src)"

text \<open>\<^verbatim>\<open>[]byte(s)\<close>: the bytes of a string.\<close>

definition bytes :: "string \<Rightarrow> byte list" where
  "bytes s = map of_char s"

text \<open>
  An instance of the time operations for running the parser on concrete files: a time
  is the triple of arguments given to \<^verbatim>\<open>time.Date\<close>, printed as the empty string.
\<close>

definition example_time :: "(int \<times> int \<times> int) time_pkg" where
  "example_time =
     \<lparr>time_zero = (1, 1, 1), time_Date = (\<lambda>y m d. (y, m, d)), time_String = (\<lambda>t. [])\<rparr>"

text \<open>
  A file of 129 bytes: the SUB character, the signature, the version \<^verbatim>\<open>"00"\<close>, then the 75
  bytes at offsets 7 to 81 of the trailer, the 8 bytes of the date at 82 to 89 and the 38
  bytes at 90 to 127.
\<close>

definition sauce_file :: "byte list \<Rightarrow> byte list \<Rightarrow> byte list \<Rightarrow> byte list" where
  "sauce_file text date rest = [0x1A] @ SAUCEID @ bytes ''00'' @ text @ date @ rest"

text \<open>
  A record as a SAUCE writer lays it out: title (35 bytes), author (20), group (20), date,
  file size 10000, data type 1, file type 1, the four type-info values 0, 25, 0, 0, two
  comment lines, flags 1 and a font name in the last 22 bytes.
\<close>

definition ansi_file :: "byte list" where
  "ansi_file = sauce_file
     (bytes ''Title'' @ replicate 30 0x20 @ bytes ''Author'' @ replicate 14 0x20
        @ bytes ''Group'' @ replicate 15 0x20)
     (bytes ''20140102'')
     ([0x10, 0x27, 0, 0, 1, 1, 0, 0, 25, 0, 0, 0, 0, 0, 2, 1] @ bytes ''IBM VGA''
        @ replicate 15 0)"

definition ansi_record :: "(int \<times> int \<times> int) SAUCE" where
  "ansi_record = \<lparr>ID = SAUCEID, Version = [0, 0], Title = ''Title'', Author = ''Author'',
     Group = ''Group'', Date = (2014, 1, 2), FileSize = 0x01000027, DataType = 1,
     FileType = 1, TInfo = [0, 25, 0, 0], Comments = 0, TFlags = 0,
     TInfos = replicate 22 0\<rparr>"

text \<open>
  A RIP script of 320 by 200 pixels: data type 1, file type 3.
\<close>

definition rip_file :: "byte list" where
  "rip_file = sauce_file
     (bytes ''Logo'' @ replicate 71 0x20)
     (bytes ''19940815'')
     ([0, 0, 0, 0, 1, 3, 0x40, 0x01, 0xC8, 0, 0, 0, 0, 0] @ replicate 24 0)"

definition rip_record :: "(int \<times> int \<times> int) SAUCE" where
  "rip_record = \<lparr>ID = SAUCEID, Version = [0, 0], Title = ''Logo'', Author = [],
     Group = [], Date = (1994, 8, 15), FileSize = 0x01000000, DataType = 1,
     FileType = 3, TInfo = [320, 200, 0, 0], Comments = 0, TFlags = 0,
     TInfos = replicate 22 0\<rparr>"

text \<open>A record whose date has no digits where the month should be.\<close>

definition bad_date_file :: "byte list" where
  "bad_date_file = sauce_file
     (bytes ''Title'' @ replicate 70 0x20)
     (bytes ''2014xx02'')
     ([0, 0, 0, 0, 1, 1, 80, 0, 25, 0, 0, 0, 0, 0] @ replicate 24 0)"

definition bad_date_record :: "(int \<times> int \<times> int) SAUCE" where
  "bad_date_record = \<lparr>ID = SAUCEID, Version = [0, 0], Title = ''Title'', Author = [],
     Group = [], Date = (2014, 0, 2), FileSize = 0x01000000, DataType = 1,
     FileType = 1, TInfo = [80, 25, 0, 0], Comments = 0, TFlags = 0,
     TInfos = replicate 22 0\<rparr>"

text \<open>
  A title that fills its 35 bytes, and a title padded with NUL bytes instead of spaces.
\<close>

definition long_title_file :: "byte list" where
  "long_title_file = sauce_file
     (bytes ''ABCDEFGHIJKLMNOPQRSTUVWXYZ123456789'' @ bytes ''Author'' @ replicate 14 0x20
        @ bytes ''Group'' @ replicate 15 0x20)
     (bytes ''20140102'')
     ([0, 0, 0, 0, 1, 1, 80, 0, 25, 0, 0, 0, 0, 0] @ replicate 24 0)"

definition long_title_record :: "(int \<times> int \<times> int) SAUCE" where
  "long_title_record = \<lparr>ID = SAUCEID, Version = [0, 0],
     Title = ''ABCDEFGHIJKLMNOPQRSTUVWXYZ12345678'', Author = ''9Author'',
     Group = ''Group'', Date = (2014, 1, 2), FileSize = 0x01000000, DataType = 1,
     FileType = 1, TInfo = [80, 25, 0, 0], Comments = 0, TFlags = 0,
     TInfos = replicate 22 0\<rparr>"

definition nul_title_file :: "byte list" where
  "nul_title_file = sauce_file
     (bytes ''ART'' @ replicate 32 0 @ bytes ''Author'' @ replicate 14 0x20
        @ bytes ''Group'' @ replicate 15 0x20)
     (bytes ''20140102'')
     ([0, 0, 0, 0, 1, 1, 80, 0, 25, 0, 0, 0, 0, 0] @ replicate 24 0)"

definition nul_title_record :: "(int \<times> int \<times> int) SAUCE" where
  "nul_title_record = \<lparr>ID = SAUCEID, Version = [0, 0],
     Title = ''ART'' @ replicate 31 (CHR 0x00), Author = CHR 0x00 # ''Author'',
     Group = ''Group'', Date = (2014, 1, 2), FileSize = 0x01000000, DataType = 1,
     FileType = 1, TInfo = [80, 25, 0, 0], Comments = 0, TFlags = 0,
     TInfos = replicate 22 0\<rparr>"

subsection \<open>The specification's reading of the date\<close>

text \<open>
  The specification describes each part of the date as a fallible parse whose failure
  is replaced by zero: the value when \<^verbatim>\<open>Atoi\<close> returns no error, and 0 when it
  returns one.
\<close>

definition orZero :: "int \<times> NumError option \<Rightarrow> int" where
  "orZero p = (case p of (v, None) \<Rightarrow> v | (v, Some e) \<Rightarrow> 0)"

subsection \<open>The specification's reading of the text fields\<close>

text \<open>
  The specification describes the title as a field of 35 bytes from which leading and
  trailing white space, "space and control characters", is trimmed: the space, the
  bytes below it and DEL.
\<close>

definition spec_whitespace :: "char \<Rightarrow> bool" where
  "spec_whitespace c \<longleftrightarrow> (of_char c :: nat) \<le> 32 \<or> c = CHR 0x7F"

definition spec_trim :: "string \<Rightarrow> string" where
  "spec_trim s = rev (dropWhile spec_whitespace (rev (dropWhile spec_whitespace s)))"

definition spec_title :: "byte list \<Rightarrow> string" where
  "spec_title b = spec_trim (string_of_bytes (slice b 7 42))"

text \<open>Strings of bytes below 128, in which every rune is one byte.\<close>

definition isASCII :: "string \<Rightarrow> bool" where
  "isASCII s \<longleftrightarrow> (\<forall>c\<in>set s. (of_char c :: nat) < 128)"

section \<open>Properties of the parser\<close>

lemmas DATA_TYPE_defs =
  DATA_TYPE_NONE_def DATA_TYPE_CHARACTER_def DATA_TYPE_BITMAP_def DATA_TYPE_VECTOR_def
  DATA_TYPE_AUDIO_def DATA_TYPE_BINARYTEXT_def DATA_TYPE_XBIN_def DATA_TYPE_ARCHIVE_def
  DATA_TYPE_EXECUTABLE_def

subsection \<open>What a successful parse says about the source and the record\<close>

lemma Parse_Some_source:
  assumes "Parse T src = (Some r, e)"
  shows "os_Open src = None \<and> (\<exists>sz. f_Stat src = Inr sz \<and> 129 \<le> sz) \<and> f_Seek src = None
    \<and> snd (f_Read src) = None \<and> length (trailer src) = 128
    \<and> slice (trailer src) 0 5 = SAUCEID \<and> e = None"
  using assms
  by (auto simp: Parse_def trailer_def Let_def
      split: option.splits sum.splits if_splits prod.splits)

lemma Parse_Some_record:
  assumes "Parse T src = (Some r, e)"
  shows "r = \<lparr>ID = SAUCEID, Version = SAUCEVersion,
     Title = TrimSpace (string_of_bytes (slice (trailer src) 7 41)),
     Author = TrimSpace (string_of_bytes (slice (trailer src) 41 61)),
     Group = TrimSpace (string_of_bytes (slice (trailer src) 61 81)),
     Date = parseDate T (string_of_bytes (slice (trailer src) 82 90)),
     FileSize = Uint32 (slice (trailer src) 91 95),
     DataType = trailer src ! 94,
     FileType = trailer src ! 95,
     TInfo = [Uint16 (slice (trailer src) 96 98), Uint16 (slice (trailer src) 98 100),
              Uint16 (slice (trailer src) 100 102), Uint16 (slice (trailer src) 102 104)],
     Comments = 0, TFlags = 0, TInfos = replicate 22 0\<rparr>"
  using assms
  by (auto simp: Parse_def trailer_def Let_def New_def numeral_eq_Suc
      split: option.splits sum.splits if_splits prod.splits)

text \<open>On a regular file only the length and the signature decide the outcome.\<close>

lemma Parse_regular_file:
  "Parse T (regular_file bs) =
     (if length bs < 129 then (None, Some (errors_New ''File too short''))
      else if slice (trailer (regular_file bs)) 0 5 \<noteq> SAUCEID
        then (None, Some (errors_New ''No SAUCE record''))
      else (fst (Parse T (regular_file bs)), None))"
  by (auto simp: Parse_def regular_file_def Let_def trailer_def)

lemma Parse_regular_file_Some:
  "129 \<le> length bs \<Longrightarrow> slice (trailer (regular_file bs)) 0 5 = SAUCEID
    \<Longrightarrow> \<exists>r. Parse T (regular_file bs) = (Some r, None)"
  by (auto simp: Parse_def regular_file_def Let_def trailer_def)

lemma Parse_ansi_file: "Parse example_time (regular_file ansi_file) = (Some ansi_record, None)"
  by code_simp

subsection \<open>The file size and the data type\<close>

lemma drop_bit_Uint32: "drop_bit 24 (Uint32 b) = ucast (b ! 3)"
  unfolding Uint32_def
  by (rule bit_word_eqI) (auto simp: bit_simps dest: bit_imp_le_length)

lemma slice_nth: "i + k < j \<Longrightarrow> j \<le> length b \<Longrightarrow> slice b i j ! k = b ! (i + k)"
  by (simp add: slice_def)

lemma unat_ucast_byte: "unat (ucast (d :: 8 word) :: 32 word) = unat d"
proof -
  have "unat d < 2 ^ 8"
    using unsigned_less [of d] by simp
  then have "unat d < 2 ^ 32"
    by simp
  then show ?thesis
    by (simp add: unsigned_ucast_eq take_bit_nat_eq_self)
qed

lemma unat_drop_bit_24: "unat (drop_bit 24 (w :: 32 word)) = unat w div 2 ^ 24"
  by (metis drop_bit_eq_div unat_drop_bit_eq)

text \<open>
  Claim C10. Whenever \<^verbatim>\<open>Parse\<close> succeeds, the data type of the record is the byte at
  offset 94 of the trailer, the file size is the little-endian 32-bit value of the bytes
  at offsets 91 to 94, and so the data type equals the file size divided by \<open>2 ^ 24\<close>:
  the two fields share the byte at offset 94 and cannot disagree on it.
\<close>

theorem C10_data_type_aliases_file_size:
  assumes "Parse T src = (Some r, None)"
  shows "DataType r = trailer src ! 94
    \<and> FileSize r = Uint32 (slice (trailer src) 91 95)
    \<and> unat (DataType r) = unat (FileSize r) div 2 ^ 24"
proof -
  let ?b = "trailer src"
  have len: "length ?b = 128"
    using Parse_Some_source [OF assms] by simp
  have r: "DataType r = ?b ! 94" "FileSize r = Uint32 (slice ?b 91 95)"
    by (simp_all add: Parse_Some_record [OF assms])
  have "slice ?b 91 95 ! 3 = ?b ! 94"
    using len by (simp add: slice_nth)
  then have "drop_bit 24 (FileSize r) = ucast (DataType r)"
    by (simp add: r drop_bit_Uint32)
  then have "unat (drop_bit 24 (FileSize r)) = unat (DataType r)"
    by (simp add: unat_ucast_byte)
  then show ?thesis
    using r by (simp add: unat_drop_bit_24)
qed

text \<open>
  The file written with size 10000 and data type 1 parses to the file size
  \<open>0x01000027\<close>, whose top byte is the data type.
\<close>

theorem C10_witness:
  "Parse example_time (regular_file ansi_file) = (Some ansi_record, None)
   \<and> DataType ansi_record = 1 \<and> FileSize ansi_record = 0x01000027
   \<and> unat (DataType ansi_record) = unat (FileSize ansi_record) div 2 ^ 24"
  using C10_data_type_aliases_file_size [OF Parse_ansi_file] Parse_ansi_file
  by (simp add: ansi_record_def)

subsection \<open>Fields that the parser does not read\<close>

text \<open>
  Claim C3, as the code has it. \<^verbatim>\<open>Parse\<close> never reads the bytes at offsets 5 and 6 of
  the trailer: the version of every record it returns is the constant
  \<^verbatim>\<open>SAUCEVersion\<close>, the two bytes 0 and 0 that \<^verbatim>\<open>New\<close> stores.
\<close>

theorem C3_version_is_constant:
  assumes "Parse T src = (Some r, None)"
  shows "Version r = [0, 0]"
  by (simp add: Parse_Some_record [OF assms] SAUCEVersion_def)

theorem C3_witness:
  "Parse example_time (regular_file ansi_file) = (Some ansi_record, None)
   \<and> Version ansi_record = [0, 0]"
  using C3_version_is_constant [OF Parse_ansi_file] Parse_ansi_file
  by simp

text \<open>
  The version does not equal the bytes of the trailer: in a file whose version bytes
  are the two ASCII digits \<^verbatim>\<open>"00"\<close> (\<open>0x30\<close>, \<open>0x30\<close>) the record has the version
  \<open>[0, 0]\<close>.
\<close>

theorem C3_counterexample:
  "Parse example_time (regular_file ansi_file) = (Some ansi_record, None)
   \<and> slice (trailer (regular_file ansi_file)) 5 7 = [0x30, 0x30]
   \<and> Version ansi_record \<noteq> slice (trailer (regular_file ansi_file)) 5 7"
  by code_simp

text \<open>
  Claim C4, as the code has it. \<^verbatim>\<open>Parse\<close> never reads the bytes at offsets 104 to 127
  of the trailer: the comment count and the flags of every record it returns are 0 and
  its 22 reserved bytes are all 0, the zero values that \<^verbatim>\<open>New\<close> leaves there.
\<close>

theorem C4_unread_fields_are_zero:
  assumes "Parse T src = (Some r, None)"
  shows "Comments r = 0 \<and> TFlags r = 0 \<and> TInfos r = replicate 22 0"
  by (simp add: Parse_Some_record [OF assms])

theorem C4_witness:
  "Parse example_time (regular_file ansi_file) = (Some ansi_record, None)
   \<and> Comments ansi_record = 0 \<and> TFlags ansi_record = 0
   \<and> TInfos ansi_record = replicate 22 0"
  using C4_unread_fields_are_zero [OF Parse_ansi_file] Parse_ansi_file
  by simp

text \<open>
  The three fields are not the bytes of the trailer: the file has the comment count 2,
  the flags 1 and a font name in its last 22 bytes, and the record has zeros.
\<close>

theorem C4_counterexample:
  "Parse example_time (regular_file ansi_file) = (Some ansi_record, None)
   \<and> Comments ansi_record \<noteq> trailer (regular_file ansi_file) ! 104
   \<and> TFlags ansi_record \<noteq> trailer (regular_file ansi_file) ! 105
   \<and> TInfos ansi_record \<noteq> slice (trailer (regular_file ansi_file)) 106 128"
  by code_simp

lemma Parse_rip_file: "Parse example_time (regular_file rip_file) = (Some rip_record, None)"
  by code_simp

lemma Parse_bad_date_file:
  "Parse example_time (regular_file bad_date_file) = (Some bad_date_record, None)"
  by code_simp

section \<open>Properties of the renderer\<close>

text \<open>
  Claim C2. For a record that \<^verbatim>\<open>Parse\<close> returned, with data type 1 (Character) and
  file type 0, 1, 2, 4, 5 or 8, \<^verbatim>\<open>Dump\<close> writes after its ten fixed lines exactly one
  more, the size line: the first type-info value, or 80 when that value is 0, then
  \<^verbatim>\<open>" x "\<close>, the second type-info value unchanged, then \<^verbatim>\<open>" characters"\<close>.
\<close>

theorem C2_character_size_line:
  assumes "Parse T src = (Some r, None)"
    and "DataType r = 1"
    and "FileType r \<in> {0, 1, 2, 4, 5, 8}"
  shows "drop 10 (Dump T r) =
    [''size....: '' @ itoa (if TInfo r ! 0 = 0 then 80 else unat (TInfo r ! 0))
       @ '' x '' @ itoa (unat (TInfo r ! 1)) @ '' characters\<newline>'']"
  using assms(2,3) by (simp add: Dump_def Let_def)

theorem C2_witness:
  "Parse example_time (regular_file ansi_file) = (Some ansi_record, None)
   \<and> DataType ansi_record = 1 \<and> FileType ansi_record = 1 \<and> TInfo ansi_record = [0, 25, 0, 0]
   \<and> drop 10 (Dump example_time ansi_record) = [''size....: 80 x 25 characters\<newline>'']"
proof -
  have dt: "DataType ansi_record = 1" and ft: "FileType ansi_record \<in> {0, 1, 2, 4, 5, 8}"
    by (simp_all add: ansi_record_def)
  have "itoa 80 = ''80''" "itoa 25 = ''25''" by code_simp+
  then show ?thesis
    using C2_character_size_line [OF Parse_ansi_file dt ft] Parse_ansi_file
    by (simp add: ansi_record_def)
qed

text \<open>
  Claim C5. For a record that \<^verbatim>\<open>Parse\<close> returned, with data type 1 (Character) and
  file type 3 (RIP script), the size line that \<^verbatim>\<open>Dump\<close> writes is the first and the
  second type-info value, both as they are (a width of 0 stays 0), followed by
  \<^verbatim>\<open>" pixels"\<close>.
\<close>

theorem C5_rip_size_line:
  assumes "Parse T src = (Some r, None)"
    and "DataType r = 1"
    and "FileType r = 3"
  shows "drop 10 (Dump T r) =
    [''size....: '' @ itoa (unat (TInfo r ! 0)) @ '' x '' @ itoa (unat (TInfo r ! 1))
       @ '' pixels\<newline>'']"
  using assms(2,3) by (simp add: Dump_def)

theorem C5_witness:
  "Parse example_time (regular_file rip_file) = (Some rip_record, None)
   \<and> DataType rip_record = 1 \<and> FileType rip_record = 3 \<and> TInfo rip_record = [320, 200, 0, 0]
   \<and> drop 10 (Dump example_time rip_record) = [''size....: 320 x 200 pixels\<newline>'']"
proof -
  have dt: "DataType rip_record = 1" and ft: "FileType rip_record = 3"
    by (simp_all add: rip_record_def)
  have "itoa 320 = ''320''" "itoa 200 = ''200''" by code_simp+
  then show ?thesis
    using C5_rip_size_line [OF Parse_rip_file dt ft] Parse_rip_file
    by (simp add: rip_record_def)
qed

lemma dom_SAUCEFileType: "dom SAUCEFileType = {1, 2, 3, 4, 7}"
  by (auto simp: SAUCEFileType_def DATA_TYPE_defs split: if_splits)

text \<open>
  Claim C9. The data types with a file-type table are exactly 1, 2, 3, 4 and 7
  (Character, Bitmap, Vector, Audio, Archive). \<^verbatim>\<open>FileTypeString\<close> gives a name only for
  a record with one of these data types. For the data types 0, 5, 6 and 8 (None,
  BinaryText, XBin, Executable) there is no table, the name is empty, and the file-type
  line of \<^verbatim>\<open>Dump\<close> is the number alone.
\<close>

theorem C9_file_type_tables:
  "dom SAUCEFileType = {1, 2, 3, 4, 7}
   \<and> (FileTypeString r \<noteq> [] \<longrightarrow> DataType r \<in> {1, 2, 3, 4, 7})
   \<and> (DataType r \<in> {0, 5, 6, 8} \<longrightarrow>
        SAUCEFileType (DataType r) = None \<and> FileTypeString r = []
        \<and> Dump T r ! 8 = ''filetype: '' @ itoa (unat (FileType r)) @ ''\<newline>'')"
proof -
  have d: "dom SAUCEFileType = {1, 2, 3, 4, 7}" by (rule dom_SAUCEFileType)
  have a: "DataType r \<in> {1, 2, 3, 4, 7}" if "FileTypeString r \<noteq> []"
  proof -
    from that have "SAUCEFileType (DataType r) \<noteq> None"
      by (auto simp: FileTypeString_def split: option.splits)
    then have "DataType r \<in> dom SAUCEFileType" by (simp add: dom_def)
    then show ?thesis by (simp only: d)
  qed
  have b: "SAUCEFileType (DataType r) = None \<and> FileTypeString r = []
        \<and> Dump T r ! 8 = ''filetype: '' @ itoa (unat (FileType r)) @ ''\<newline>''" if "DataType r \<in> {0, 5, 6, 8}"
  proof -
    from that have "DataType r \<notin> dom SAUCEFileType" by (auto simp: d)
    then have n: "SAUCEFileType (DataType r) = None" by (simp add: dom_def)
    then show ?thesis by (simp add: FileTypeString_def Dump_def)
  qed
  from d a b show ?thesis by blast
qed

theorem C9_witness:
  "FileTypeString ansi_record = ''ANSi'' \<and> DataType ansi_record \<in> {1, 2, 3, 4, 7}
   \<and> DataType (ansi_record\<lparr>DataType := 6\<rparr>) \<in> {0, 5, 6, 8}
   \<and> SAUCEFileType (DataType (ansi_record\<lparr>DataType := 6\<rparr>)) = None
   \<and> Dump example_time (ansi_record\<lparr>DataType := 6\<rparr>) ! 8 = ''filetype: 1\<newline>''"
proof -
  have f: "FileTypeString ansi_record = ''ANSi''" by code_simp
  have i: "itoa 1 = ''1''" by code_simp
  show ?thesis
    using C9_file_type_tables [of ansi_record example_time]
      C9_file_type_tables [of "ansi_record\<lparr>DataType := 6\<rparr>" example_time] f i
    by (simp add: ansi_record_def)
qed

section \<open>Outcomes of the parser\<close>

lemma Parse_too_short_iff:
  "Parse T src = (None, Some (errors_New ''File too short''))
     \<longleftrightarrow> os_Open src = None \<and> (\<exists>sz. f_Stat src = Inr sz \<and> sz < 129)"
  by (auto simp: Parse_def Let_def split: option.splits sum.splits prod.splits)

text \<open>
  Claim C6. \<^verbatim>\<open>Parse\<close> returns the error \<^verbatim>\<open>"File too short"\<close> exactly when the file
  opens and \<^verbatim>\<open>Stat\<close> reports a size below 129; on a regular file, exactly when the file
  has fewer than 129 bytes. A file of exactly 129 bytes whose last 128 bytes begin with
  the signature parses to a record.
\<close>

theorem C6_too_short_iff:
  "(Parse T src = (None, Some (errors_New ''File too short''))
      \<longleftrightarrow> os_Open src = None \<and> (\<exists>sz. f_Stat src = Inr sz \<and> sz < 129))
   \<and> (Parse T (regular_file bs) = (None, Some (errors_New ''File too short''))
      \<longleftrightarrow> length bs < 129)
   \<and> (length bs = 129 \<and> slice (trailer (regular_file bs)) 0 5 = SAUCEID \<longrightarrow>
        (\<exists>r. Parse T (regular_file bs) = (Some r, None)))"
proof -
  have "Parse T (regular_file bs) = (None, Some (errors_New ''File too short''))
      \<longleftrightarrow> length bs < 129"
    by (subst Parse_regular_file) simp
  moreover have "\<exists>r. Parse T (regular_file bs) = (Some r, None)"
    if "length bs = 129" "slice (trailer (regular_file bs)) 0 5 = SAUCEID"
    using that by (intro Parse_regular_file_Some) simp_all
  ultimately show ?thesis
    using Parse_too_short_iff [of T src] by blast
qed

theorem C6_witness:
  "Parse example_time (regular_file (replicate 128 0)) = (None, Some (errors_New ''File too short''))
   \<and> length (replicate 128 (0::byte)) < 129
   \<and> length ansi_file = 129
   \<and> slice (trailer (regular_file ansi_file)) 0 5 = SAUCEID
   \<and> (\<exists>r. Parse example_time (regular_file ansi_file) = (Some r, None))"
proof -
  have l: "length ansi_file = 129" by code_simp
  have s: "slice (trailer (regular_file ansi_file)) 0 5 = SAUCEID" by code_simp
  show ?thesis
    using C6_too_short_iff [of example_time "regular_file (replicate 128 0)" "replicate 128 0"]
      C6_too_short_iff [of example_time "regular_file ansi_file" ansi_file] l s
    by simp
qed

text \<open>\<^verbatim>\<open>Parse\<close> never returns a nil record together with a nil error.\<close>

lemma Parse_not_absent: "Parse T src \<noteq> (None, None)"
  by (auto simp: Parse_def Let_def split: option.splits sum.splits prod.splits)

text \<open>
  Claim C1, as the code has it. On a regular file of at least 129 bytes whose last 128
  bytes do not begin with the signature, \<^verbatim>\<open>Parse\<close> returns no record and the error
  \<^verbatim>\<open>"No SAUCE record"\<close>, and \<^verbatim>\<open>sauce-dump\<close> reports it on its error line. On no source
  does \<^verbatim>\<open>Parse\<close> return a nil record with a nil error, so the branch of \<^verbatim>\<open>sauce-dump\<close>
  for a missing record is never taken.
\<close>

theorem C1_no_signature_is_an_error:
  "(129 \<le> length bs \<and> slice (trailer (regular_file bs)) 0 5 \<noteq> SAUCEID \<longrightarrow>
      Parse T (regular_file bs) = (None, Some (errors_New ''No SAUCE record''))
      \<and> sauce_dump T (\<lambda>filename. regular_file bs) [name]
          = [name @ '': error No SAUCE record\<newline>''])
   \<and> Parse T src \<noteq> (None, None)"
proof -
  have "Parse T (regular_file bs) = (None, Some (errors_New ''No SAUCE record''))
      \<and> sauce_dump T (\<lambda>filename. regular_file bs) [name]
          = [name @ '': error No SAUCE record\<newline>'']"
    if "129 \<le> length bs" "slice (trailer (regular_file bs)) 0 5 \<noteq> SAUCEID"
  proof -
    from that have "Parse T (regular_file bs) = (None, Some (errors_New ''No SAUCE record''))"
      by (subst Parse_regular_file) simp
    then show ?thesis
      by (simp add: sauce_dump_def)
  qed
  with Parse_not_absent [of T src] show ?thesis
    by blast
qed

theorem C1_witness:
  "129 \<le> length (replicate 200 (0x41 :: byte))
   \<and> slice (trailer (regular_file (replicate 200 0x41))) 0 5 \<noteq> SAUCEID
   \<and> Parse example_time (regular_file (replicate 200 0x41))
       = (None, Some (errors_New ''No SAUCE record''))"
proof -
  have s: "slice (trailer (regular_file (replicate 200 0x41))) 0 5 \<noteq> SAUCEID"
    by code_simp
  show ?thesis
    using C1_no_signature_is_an_error [of "replicate 200 0x41" example_time] s
    by simp
qed

text \<open>
  A missing signature is not a result without an error: on a file of 129 zero bytes the
  outcome is the error.
\<close>

theorem C1_counterexample:
  "129 \<le> length (replicate 129 (0 :: byte))
   \<and> slice (trailer (regular_file (replicate 129 0))) 0 5 \<noteq> SAUCEID
   \<and> Parse example_time (regular_file (replicate 129 0)) \<noteq> (None, None)
   \<and> Parse example_time (regular_file (replicate 129 0))
       = (None, Some (errors_New ''No SAUCE record''))"
  by code_simp

subsection \<open>The date\<close>

lemma digit_value:
  assumes "isDigit c"
  shows "0 \<le> (of_char c :: int) - 48 \<and> (of_char c :: int) - 48 \<le> 9"
proof -
  have "(of_char c :: int) = int (of_char c)"
    by (simp add: of_nat_of_char)
  with assms show ?thesis
    by (simp add: isDigit_def)
qed

lemma foldl_decimal_bound:
  "list_all isDigit ds \<Longrightarrow> (0::int) \<le> n \<Longrightarrow>
     0 \<le> foldl (\<lambda>n c. n * 10 + (of_char c - 48)) n ds
     \<and> foldl (\<lambda>n c. n * 10 + (of_char c - 48)) n ds < (n + 1) * 10 ^ length ds"
proof (induction ds arbitrary: n)
  case Nil
  then show ?case by simp
next
  case (Cons c ds)
  let ?F = "\<lambda>(n::int) c. n * 10 + (of_char c - 48)"
  let ?m = "n * 10 + (of_char c - 48)"
  from Cons.prems have d: "0 \<le> (of_char c :: int) - 48" "(of_char c :: int) - 48 \<le> 9"
    using digit_value [of c] by simp_all
  with Cons.prems have m: "0 \<le> ?m" by simp
  from Cons.prems have "list_all isDigit ds" by simp
  from Cons.IH [OF this m]
  have ih: "0 \<le> foldl ?F ?m ds" "foldl ?F ?m ds < (?m + 1) * 10 ^ length ds"
    by simp_all
  have "?m + 1 \<le> (n + 1) * 10" using d by simp
  then have "(?m + 1) * 10 ^ length ds \<le> ((n + 1) * 10) * 10 ^ length ds"
    by (intro mult_right_mono) simp_all
  then have le: "(?m + 1) * 10 ^ length ds \<le> (n + 1) * 10 ^ length (c # ds)"
    by (simp add: mult.assoc)
  have lt: "foldl ?F ?m ds < (n + 1) * 10 ^ length (c # ds)"
    using ih(2) le by (rule less_le_trans)
  have eq: "foldl ?F n (c # ds) = foldl ?F ?m ds" by simp
  show ?case
    using ih(1) lt by (simp only: eq)
qed

lemma decimal_bound:
  assumes "list_all isDigit ds"
  shows "0 \<le> decimal ds \<and> decimal ds < 10 ^ length ds"
  using foldl_decimal_bound [OF assms, of 0] by (simp add: decimal_def)

lemma decimal_small:
  assumes "list_all isDigit ds" "length ds \<le> 18"
  shows "decimal ds < 2 ^ 63"
proof -
  have "decimal ds < 10 ^ length ds"
    using decimal_bound [OF assms(1)] by simp
  also have "(10::int) ^ length ds \<le> 10 ^ 18"
    using assms(2) by (intro power_increasing) simp_all
  also have "(10::int) ^ 18 < 2 ^ 63" by simp
  finally show ?thesis .
qed

lemma Atoi_error_zero:
  assumes "length s \<le> 18" "snd (Atoi s) \<noteq> None"
  shows "fst (Atoi s) = 0"
proof -
  define ds where "ds = (if s \<noteq> [] \<and> (hd s = CHR ''+'' \<or> hd s = CHR ''-'') then tl s else s)"
  have len: "length ds \<le> 18"
    using assms(1) by (auto simp: ds_def)
  show ?thesis
  proof (cases "ds = [] \<or> \<not> list_all isDigit ds")
    case True
    then show ?thesis
      by (simp add: Atoi_def Let_def ds_def [symmetric])
  next
    case False
    then have "decimal ds < 2 ^ 63"
      using decimal_small len by blast
    with False assms(2) show ?thesis
      by (simp add: Atoi_def Let_def ds_def [symmetric])
  qed
qed

lemma orZero_Atoi: "length s \<le> 18 \<Longrightarrow> orZero (Atoi s) = fst (Atoi s)"
  using Atoi_error_zero [of s]
  by (cases "Atoi s") (auto simp: orZero_def split: option.splits)

text \<open>
  Claim C7. When \<^verbatim>\<open>Parse\<close> succeeds, the date field is the eight characters at offsets
  82 to 89 of the trailer; the date of the record is \<^verbatim>\<open>time.Date\<close> of the year, month
  and day read from its characters 0 to 3, 4 and 5, 6 and 7, each replaced by zero when
  \<^verbatim>\<open>Atoi\<close> fails on it. Whether a regular file parses depends on its length and its
  signature only, so no content of the date field makes \<^verbatim>\<open>Parse\<close> return an error.
\<close>

theorem C7_date_fields_default_to_zero:
  assumes "Parse T src = (Some r, None)"
    and "s = string_of_bytes (slice (trailer src) 82 90)"
  shows "length s = 8
    \<and> Date r = time_Date T (orZero (Atoi (slice s 0 4))) (orZero (Atoi (slice s 4 6)))
        (orZero (Atoi (slice s 6 8)))
    \<and> (\<forall>bs. (\<exists>r'. Parse T (regular_file bs) = (Some r', None)) \<longleftrightarrow>
          129 \<le> length bs \<and> slice (trailer (regular_file bs)) 0 5 = SAUCEID)"
proof -
  have "length (trailer src) = 128"
    using Parse_Some_source [OF assms(1)] by simp
  then have len: "length s = 8"
    by (simp add: assms(2) string_of_bytes_def slice_def)
  have "Date r = parseDate T s"
    by (simp add: Parse_Some_record [OF assms(1)] assms(2))
  then have date: "Date r = time_Date T (orZero (Atoi (slice s 0 4)))
      (orZero (Atoi (slice s 4 6))) (orZero (Atoi (slice s 6 8)))"
    by (simp add: parseDate_def Let_def orZero_Atoi slice_def)
  have "(\<exists>r'. Parse T (regular_file bs) = (Some r', None)) \<longleftrightarrow>
      129 \<le> length bs \<and> slice (trailer (regular_file bs)) 0 5 = SAUCEID" for bs
  proof
    assume "\<exists>r'. Parse T (regular_file bs) = (Some r', None)"
    then obtain r' where "Parse T (regular_file bs) = (Some r', None)" ..
    from Parse_Some_source [OF this]
    show "129 \<le> length bs \<and> slice (trailer (regular_file bs)) 0 5 = SAUCEID"
      by (auto simp: regular_file_def)
  next
    assume "129 \<le> length bs \<and> slice (trailer (regular_file bs)) 0 5 = SAUCEID"
    then show "\<exists>r'. Parse T (regular_file bs) = (Some r', None)"
      by (simp add: Parse_regular_file_Some)
  qed
  with len date show ?thesis by blast
qed

theorem C7_witness:
  "Parse example_time (regular_file bad_date_file) = (Some bad_date_record, None)
   \<and> string_of_bytes (slice (trailer (regular_file bad_date_file)) 82 90) = ''2014xx02''
   \<and> Atoi ''xx'' = (0, Some ErrSyntax)
   \<and> Date bad_date_record = (2014, 0, 2)"
proof -
  have s: "''2014xx02'' = string_of_bytes (slice (trailer (regular_file bad_date_file)) 82 90)"
    by code_simp
  have a: "Atoi ''xx'' = (0, Some ErrSyntax)"
    by code_simp
  show ?thesis
    using C7_date_fields_default_to_zero [OF Parse_bad_date_file s] Parse_bad_date_file s a
    by (simp add: bad_date_record_def)
qed

subsection \<open>The text fields\<close>

lemma Parse_long_title_file:
  "Parse example_time (regular_file long_title_file) = (Some long_title_record, None)"
  by code_simp

lemma Parse_nul_title_file:
  "Parse example_time (regular_file nul_title_file) = (Some nul_title_record, None)"
  by code_simp

lemma trimRunes_ascii:
  assumes "\<And>c d. c \<in> set s \<Longrightarrow> \<not> p2 c d"
    and "\<And>c d e. c \<in> set s \<Longrightarrow> \<not> p3 c d e"
  shows "trimRunes p2 p3 s = dropWhile asciiSpace s"
  using assms
  by (induction p2 p3 s rule: trimRunes.induct) auto

lemma not_space2_ascii: "(of_char c :: nat) < 128 \<Longrightarrow> \<not> space2 c d \<and> \<not> space2 d c"
  by (auto simp: space2_def)

lemma not_space3_ascii: "(of_char c :: nat) < 128 \<Longrightarrow> \<not> space3 c d e \<and> \<not> space3 e d c"
  by (auto simp: space3_def)

lemma TrimLeftSpace_ascii: "isASCII s \<Longrightarrow> TrimLeftSpace s = dropWhile asciiSpace s"
  unfolding TrimLeftSpace_def
  by (rule trimRunes_ascii) (simp_all add: isASCII_def not_space2_ascii not_space3_ascii)

lemma TrimRightSpace_ascii: "isASCII s \<Longrightarrow> TrimRightSpace s = rev (dropWhile asciiSpace (rev s))"
  unfolding TrimRightSpace_def
  by (subst trimRunes_ascii) (simp_all add: isASCII_def not_space2_ascii not_space3_ascii)

lemma isASCII_dropWhile: "isASCII s \<Longrightarrow> isASCII (dropWhile P s)"
  by (auto simp: isASCII_def dest: set_dropWhileD)

lemma TrimSpace_ascii:
  "isASCII s \<Longrightarrow> TrimSpace s = rev (dropWhile asciiSpace (rev (dropWhile asciiSpace s)))"
  by (simp add: TrimSpace_def TrimLeftSpace_ascii TrimRightSpace_ascii isASCII_dropWhile)

text \<open>
  Claim C8, as the code has it. There are three fixed runs of trailer bytes, one that
  starts at offset 7 and two of 20 bytes, such that whenever \<^verbatim>\<open>Parse\<close> succeeds the
  title, the author and the group of the record are \<^verbatim>\<open>strings.TrimSpace\<close> of these
  runs. On a string of bytes below 128, \<^verbatim>\<open>strings.TrimSpace\<close> removes from both ends
  the bytes that are tab, line feed, vertical tab, form feed, carriage return or space,
  and nothing else: a NUL or any other control character stays.
\<close>

theorem C8_text_fields_trimmed:
  "(\<exists>n i j. 7 < n \<and> n \<le> 128 \<and> i + 20 \<le> 128 \<and> j + 20 \<le> 128
      \<and> (\<forall>(T :: 't time_pkg) src r. Parse T src = (Some r, None) \<longrightarrow>
            Title r = TrimSpace (string_of_bytes (slice (trailer src) 7 n))
          \<and> Author r = TrimSpace (string_of_bytes (slice (trailer src) i (i + 20)))
          \<and> Group r = TrimSpace (string_of_bytes (slice (trailer src) j (j + 20)))))
   \<and> (\<forall>s. isASCII s \<longrightarrow>
         TrimSpace s = rev (dropWhile asciiSpace (rev (dropWhile asciiSpace s))))
   \<and> (\<forall>c. asciiSpace c \<longleftrightarrow> c \<in> {CHR 0x09, CHR 0x0A, CHR 0x0B, CHR 0x0C, CHR 0x0D, CHR 0x20})"
proof -
  let ?P = "\<lambda>n i j. 7 < n \<and> n \<le> 128 \<and> i + 20 \<le> 128 \<and> j + 20 \<le> 128
      \<and> (\<forall>(T :: 't time_pkg) src r. Parse T src = (Some r, None) \<longrightarrow>
            Title r = TrimSpace (string_of_bytes (slice (trailer src) 7 n))
          \<and> Author r = TrimSpace (string_of_bytes (slice (trailer src) i (i + 20)))
          \<and> Group r = TrimSpace (string_of_bytes (slice (trailer src) j (j + 20))))"
  have rec: "Title r = TrimSpace (string_of_bytes (slice (trailer src) 7 41))
      \<and> Author r = TrimSpace (string_of_bytes (slice (trailer src) 41 (41 + 20)))
      \<and> Group r = TrimSpace (string_of_bytes (slice (trailer src) 61 (61 + 20)))"
    if "Parse T src = (Some r, None)" for T :: "'t time_pkg" and src r
    by (simp add: Parse_Some_record [OF that])
  have "?P 41 41 61"
  proof (intro conjI allI impI)
    fix T :: "'t time_pkg" and src r
    assume p: "Parse T src = (Some r, None)"
    show "Title r = TrimSpace (string_of_bytes (slice (trailer src) 7 41))"
      using rec [OF p] by (rule conjunct1)
    show "Author r = TrimSpace (string_of_bytes (slice (trailer src) 41 (41 + 20)))"
      using rec [OF p] by (elim conjE)
    show "Group r = TrimSpace (string_of_bytes (slice (trailer src) 61 (61 + 20)))"
      using rec [OF p] by (elim conjE)
  qed simp_all
  then have "\<exists>j. ?P 41 41 j" by (rule exI [where x = 61])
  then have "\<exists>i j. ?P 41 i j" by (rule exI [where x = 41])
  then have fields: "\<exists>n i j. ?P n i j" by (rule exI [where x = 41])
  have trim: "\<forall>s. isASCII s \<longrightarrow>
      TrimSpace s = rev (dropWhile asciiSpace (rev (dropWhile asciiSpace s)))"
    by (simp add: TrimSpace_ascii)
  have sp: "\<forall>c. asciiSpace c \<longleftrightarrow>
      c \<in> {CHR 0x09, CHR 0x0A, CHR 0x0B, CHR 0x0C, CHR 0x0D, CHR 0x20}"
    by (simp add: asciiSpace_def)
  from fields trim sp show ?thesis
    by (intro conjI)
qed

theorem C8_witness:
  "Parse example_time (regular_file ansi_file) = (Some ansi_record, None)
   \<and> (\<exists>n. 7 < n \<and> n \<le> 128
        \<and> Title ansi_record
            = TrimSpace (string_of_bytes (slice (trailer (regular_file ansi_file)) 7 n)))
   \<and> Title ansi_record = ''Title''
   \<and> isASCII ''  Title  ''
   \<and> TrimSpace ''  Title  '' = ''Title''"
proof -
  note c8 = C8_text_fields_trimmed [where ?'t = "int \<times> int \<times> int"]
  from c8 [THEN conjunct1]
  obtain n i j where n: "7 < n" "n \<le> 128"
    and f: "\<forall>(T :: (int \<times> int \<times> int) time_pkg) src r. Parse T src = (Some r, None) \<longrightarrow>
            Title r = TrimSpace (string_of_bytes (slice (trailer src) 7 n))
          \<and> Author r = TrimSpace (string_of_bytes (slice (trailer src) i (i + 20)))
          \<and> Group r = TrimSpace (string_of_bytes (slice (trailer src) j (j + 20)))"
    by (elim exE conjE)
  from c8 [THEN conjunct2, THEN conjunct1]
  have t: "isASCII s \<Longrightarrow>
         TrimSpace s = rev (dropWhile asciiSpace (rev (dropWhile asciiSpace s)))" for s
    by (rule allE) (erule mp)
  from f [rule_format, OF Parse_ansi_file]
  have "Title ansi_record
      = TrimSpace (string_of_bytes (slice (trailer (regular_file ansi_file)) 7 n))"
    by (rule conjunct1)
  with n have e: "\<exists>n. 7 < n \<and> n \<le> 128
        \<and> Title ansi_record
            = TrimSpace (string_of_bytes (slice (trailer (regular_file ansi_file)) 7 n))"
    by (intro exI [where x = n] conjI)
  have a: "isASCII ''  Title  ''"
    by (simp add: isASCII_def)
  have "rev (dropWhile asciiSpace (rev (dropWhile asciiSpace ''  Title  ''))) = ''Title''"
    by (simp add: asciiSpace_def)
  with t [OF a] have d: "TrimSpace ''  Title  '' = ''Title''"
    by simp
  have "Title ansi_record = ''Title''"
    by (simp add: ansi_record_def)
  with Parse_ansi_file e a d show ?thesis
    by (intro conjI)
qed

text \<open>
  The title is not the trimmed 35-byte field of the specification. A title of 35
  letters and digits loses its last character, which \<^verbatim>\<open>Parse\<close> reads as the first
  character of the author; and a title padded with NUL bytes keeps them.
\<close>

theorem C8_counterexample:
  "Parse example_time (regular_file long_title_file) = (Some long_title_record, None)
   \<and> Title long_title_record = ''ABCDEFGHIJKLMNOPQRSTUVWXYZ12345678''
   \<and> spec_title (trailer (regular_file long_title_file)) = ''ABCDEFGHIJKLMNOPQRSTUVWXYZ123456789''
   \<and> Title long_title_record \<noteq> spec_title (trailer (regular_file long_title_file))
   \<and> Parse example_time (regular_file nul_title_file) = (Some nul_title_record, None)
   \<and> Title nul_title_record = ''ART'' @ replicate 31 (CHR 0x00)
   \<and> spec_title (trailer (regular_file nul_title_file)) = ''ART''
   \<and> Title nul_title_record \<noteq> spec_title (trailer (regular_file nul_title_file))"
  by code_simp

end
